theory Spec2Isabelle
  imports Main "HOL-Library.Log_Nat"
begin

section \<open>Python values used by the endpoint\<close>

subsection \<open>Floats\<close>

text \<open>
  A Python \<open>float\<close> is an IEEE-754 binary64 number. \<open>Finite s m e\<close> stands for
  \<open>(-1)^s * m * 2^e\<close> with the significand \<open>m\<close> a non-negative integer; the sign is kept
  apart so that \<open>-0.0\<close> exists. \<open>is_double\<close> says which triples are the canonical
  encodings of binary64 numbers (53-bit significand, exponents \<open>-1074 .. 971\<close>).
\<close>

datatype pyfloat = Finite bool int int | Infinity bool | NaN

datatype error = ValueError | ZeroDivisionError

definition pow2 :: "int \<Rightarrow> rat" where
  "pow2 e = (if 0 \<le> e then 2 ^ nat e else 1 / 2 ^ nat (- e))"

definition pow10 :: "int \<Rightarrow> rat" where
  "pow10 e = (if 0 \<le> e then 10 ^ nat e else 1 / 10 ^ nat (- e))"

fun mag :: "pyfloat \<Rightarrow> rat" where
  "mag (Finite s m e) = of_int m * pow2 e"
| "mag (Infinity s) = 0"
| "mag NaN = 0"

fun valof :: "pyfloat \<Rightarrow> rat" where
  "valof (Finite s m e) = (if s then - (of_int m * pow2 e) else of_int m * pow2 e)"
| "valof (Infinity s) = 0"
| "valof NaN = 0"

fun is_double :: "pyfloat \<Rightarrow> bool" where
  "is_double (Finite s m e) =
     (0 \<le> m \<and> m < 2 ^ 53 \<and> - 1074 \<le> e \<and> e \<le> 971 \<and> (m < 2 ^ 52 \<longrightarrow> e = - 1074))"
| "is_double (Infinity s) = True"
| "is_double NaN = True"


fun is_finite :: "pyfloat \<Rightarrow> bool" where
  "is_finite (Finite s m e) = True"
| "is_finite (Infinity s) = False"
| "is_finite NaN = False"

fun is_zero :: "pyfloat \<Rightarrow> bool" where
  "is_zero (Finite s m e) = (m = 0)"
| "is_zero (Infinity s) = False"
| "is_zero NaN = False"

text \<open>\<open>ilog2 q\<close> is \<open>floor (log2 q)\<close> for a positive rational: the bit lengths of numerator
  and denominator give it up to one, and a comparison settles it.\<close>

definition ilog2 :: "rat \<Rightarrow> int" where
  "ilog2 q = (let (n, d) = quotient_of q; k = bitlen n - bitlen d
              in if pow2 k \<le> q then k else k - 1)"

text \<open>Rounding to the nearest integer, ties to the even one.\<close>

definition round_half_even :: "rat \<Rightarrow> int" where
  "round_half_even r =
     (let f = \<lfloor>r\<rfloor>; t = r - of_int f
      in if t < 1 / 2 then f else if 1 / 2 < t then f + 1 else if even f then f else f + 1)"

text \<open>
  \<open>fl_round s q\<close> is the binary64 number nearest to the magnitude \<open>q \<ge> 0\<close> with sign
  \<open>s\<close> (round-half-even, gradual underflow, overflow to infinity): the rounding every
  arithmetic operation and the decimal parser apply to their exact result.
\<close>

definition fl_round :: "bool \<Rightarrow> rat \<Rightarrow> pyfloat" where
  "fl_round s q =
     (if q \<le> 0 then Finite s 0 (- 1074)
      else
        let e = max (ilog2 q - 52) (- 1074);
            m = round_half_even (q / pow2 e)
        in if m = 2 ^ 53
           then (if 971 < e + 1 then Infinity s else Finite s (2 ^ 52) (e + 1))
           else if 971 < e then Infinity s else Finite s m e)"

text \<open>Comparison \<open>a < b\<close> on floats: false whenever one side is a NaN.\<close>

fun flt :: "pyfloat \<Rightarrow> pyfloat \<Rightarrow> bool" where
  "flt NaN b = False"
| "flt (Infinity s) NaN = False"
| "flt (Finite s m e) NaN = False"
| "flt (Infinity s) (Infinity t) = (s \<and> \<not> t)"
| "flt (Infinity s) (Finite t n f) = s"
| "flt (Finite s m e) (Infinity t) = (\<not> t)"
| "flt (Finite s m e) (Finite t n f) = (valof (Finite s m e) < valof (Finite t n f))"

definition fgt :: "pyfloat \<Rightarrow> pyfloat \<Rightarrow> bool" where
  "fgt a b = flt b a"

text \<open>Comparison \<open>a <= b\<close> on floats, again false on a NaN (it is not \<open>\<not> flt b a\<close>).\<close>

fun fle :: "pyfloat \<Rightarrow> pyfloat \<Rightarrow> bool" where
  "fle NaN b = False"
| "fle (Infinity s) NaN = False"
| "fle (Finite s m e) NaN = False"
| "fle (Infinity s) (Infinity t) = (s \<or> \<not> t)"
| "fle (Infinity s) (Finite t n f) = s"
| "fle (Finite s m e) (Infinity t) = (\<not> t)"
| "fle (Finite s m e) (Finite t n f) = (valof (Finite s m e) \<le> valof (Finite t n f))"

text \<open>Multiplication \<open>a * b\<close>.\<close>

fun fmul :: "pyfloat \<Rightarrow> pyfloat \<Rightarrow> pyfloat" where
  "fmul NaN b = NaN"
| "fmul (Infinity s) NaN = NaN"
| "fmul (Finite s m e) NaN = NaN"
| "fmul (Infinity s) (Infinity t) = Infinity (s \<noteq> t)"
| "fmul (Infinity s) (Finite t n f) = (if n = 0 then NaN else Infinity (s \<noteq> t))"
| "fmul (Finite s m e) (Infinity t) = (if m = 0 then NaN else Infinity (s \<noteq> t))"
| "fmul (Finite s m e) (Finite t n f) =
     fl_round (s \<noteq> t) (mag (Finite s m e) * mag (Finite t n f))"

text \<open>Subtraction \<open>a - b\<close>. An exact zero difference is \<open>+0.0\<close> unless it is
  \<open>(-0.0) - (+0.0)\<close>.\<close>

fun fsub :: "pyfloat \<Rightarrow> pyfloat \<Rightarrow> pyfloat" where
  "fsub NaN b = NaN"
| "fsub (Infinity s) NaN = NaN"
| "fsub (Finite s m e) NaN = NaN"
| "fsub (Infinity s) (Infinity t) = (if s = t then NaN else Infinity s)"
| "fsub (Infinity s) (Finite t n f) = Infinity s"
| "fsub (Finite s m e) (Infinity t) = Infinity (\<not> t)"
| "fsub (Finite s m e) (Finite t n f) =
     (let q = valof (Finite s m e) - valof (Finite t n f)
      in if q = 0 then Finite (s \<and> \<not> t) 0 (- 1074) else fl_round (q < 0) \<bar>q\<bar>)"

text \<open>Division \<open>a / b\<close>: Python raises \<open>ZeroDivisionError\<close> when \<open>b == 0.0\<close>, before
  anything else.\<close>

fun fdiv_ieee :: "pyfloat \<Rightarrow> pyfloat \<Rightarrow> pyfloat" where
  "fdiv_ieee NaN b = NaN"
| "fdiv_ieee (Infinity s) NaN = NaN"
| "fdiv_ieee (Finite s m e) NaN = NaN"
| "fdiv_ieee (Infinity s) (Infinity t) = NaN"
| "fdiv_ieee (Infinity s) (Finite t n f) = Infinity (s \<noteq> t)"
| "fdiv_ieee (Finite s m e) (Infinity t) = Finite (s \<noteq> t) 0 (- 1074)"
| "fdiv_ieee (Finite s m e) (Finite t n f) =
     fl_round (s \<noteq> t) (mag (Finite s m e) / mag (Finite t n f))"

definition fdiv :: "pyfloat \<Rightarrow> pyfloat \<Rightarrow> error + pyfloat" where
  "fdiv a b = (if is_zero b then Inl ZeroDivisionError else Inr (fdiv_ieee a b))"

text \<open>\<open>max(a, 0)\<close> on a float \<open>a\<close> and the integer \<open>0\<close>: Python keeps the first argument
  unless a later one is greater, so a NaN and \<open>-0.0\<close> come back unchanged. The integer
  \<open>0\<close> only ever meets floats afterwards, where it is converted to \<open>0.0\<close>.\<close>

definition float_zero :: pyfloat where
  "float_zero = Finite False 0 (- 1074)"

definition max_zero :: "pyfloat \<Rightarrow> pyfloat" where
  "max_zero a = (if fgt float_zero a then float_zero else a)"

subsection \<open>Strings and characters\<close>

text \<open>A Python \<open>str\<close> is modelled as a list of 8-bit characters, read as the code points
  below 256.\<close>

definition is_digit :: "char \<Rightarrow> bool" where
  "is_digit c = (48 \<le> (of_char c :: int) \<and> (of_char c :: int) \<le> 57)"

definition is_upper :: "char \<Rightarrow> bool" where
  "is_upper c = (65 \<le> (of_char c :: int) \<and> (of_char c :: int) \<le> 90)"

text \<open>The white space \<open>float()\<close> strips: tab to carriage return, space, and (of the code
  points below 256) NEL and the no-break space.\<close>

definition is_space :: "char \<Rightarrow> bool" where
  "is_space c = (let n = (of_char c :: int) in (9 \<le> n \<and> n \<le> 13) \<or> n = 32 \<or> n = 133 \<or> n = 160)"

definition to_lower :: "char \<Rightarrow> char" where
  "to_lower c = (if is_upper c then char_of ((of_char c :: int) + 32) else c)"

definition digit_val :: "char \<Rightarrow> int" where
  "digit_val c = of_char c - 48"

definition digits_val :: "string \<Rightarrow> int" where
  "digits_val ds = foldl (\<lambda>a c. 10 * a + digit_val c) 0 ds"

definition digit_char :: "int \<Rightarrow> char" where
  "digit_char d = char_of (48 + d)"

text \<open>Decimal digits of a non-negative integer, as \<open>str\<close> gives them.\<close>

function str_int :: "int \<Rightarrow> string" where
  "str_int n = (if n < 10 then [digit_char n] else str_int (n div 10) @ [digit_char (n mod 10)])"
  by pat_completeness auto
termination
  by (relation "measure nat") auto

declare str_int.simps [simp del]

definition zfill :: "nat \<Rightarrow> string \<Rightarrow> string" where
  "zfill p s = replicate (p - length s) (CHR ''0'') @ s"

subsection \<open>\<open>float(s)\<close>: parsing a string\<close>

text \<open>
  Underscores may stand between two digits and are dropped; any other underscore is an
  error. \<open>prev\<close> is the character before the one looked at (NUL at the start).
\<close>

fun strip_underscores :: "char \<Rightarrow> string \<Rightarrow> string option" where
  "strip_underscores prev [] = (if prev = CHR ''_'' then None else Some [])"
| "strip_underscores prev (c # cs) =
     (if c = CHR ''_''
      then (if is_digit prev then strip_underscores c cs else None)
      else if prev = CHR ''_'' \<and> \<not> is_digit c then None
      else map_option ((#) c) (strip_underscores c cs))"

definition strip_space :: "string \<Rightarrow> string" where
  "strip_space s = rev (dropWhile is_space (rev (dropWhile is_space s)))"

definition parse_sign :: "string \<Rightarrow> bool \<times> string" where
  "parse_sign s =
     (case s of
        [] \<Rightarrow> (False, [])
      | c # cs \<Rightarrow> if c = CHR ''-'' then (True, cs) else if c = CHR ''+'' then (False, cs)
                  else (False, s))"

text \<open>The exponent part \<open>e[+-]digits\<close>; without a digit it is not an exponent and nothing
  of it is read. Returns the exponent and what is left of the string.\<close>

definition parse_exponent :: "string \<Rightarrow> int \<times> string" where
  "parse_exponent s =
     (case s of
        [] \<Rightarrow> (0, [])
      | c # cs \<Rightarrow>
          if c = CHR ''e'' \<or> c = CHR ''E''
          then (let (neg, r) = parse_sign cs; ds = takeWhile is_digit r
                in if ds = [] then (0, s)
                   else ((if neg then - digits_val ds else digits_val ds), dropWhile is_digit r))
          else (0, s))"

text \<open>A decimal numeral \<open>[sign] digits [. digits] [exponent]\<close> with at least one digit,
  rounded correctly to a float; \<open>None\<close> when the string is not one to its end.\<close>

definition parse_decimal :: "string \<Rightarrow> pyfloat option" where
  "parse_decimal s =
     (let (neg, s1) = parse_sign s;
          ip = takeWhile is_digit s1;
          s2 = dropWhile is_digit s1;
          (fp, s3) = (case s2 of
                        [] \<Rightarrow> ([], [])
                      | c # cs \<Rightarrow> if c = CHR ''.''
                                  then (takeWhile is_digit cs, dropWhile is_digit cs)
                                  else ([], s2))
      in if ip = [] \<and> fp = [] then None
         else (let (ex, s4) = parse_exponent s3
               in if s4 \<noteq> [] then None
                  else Some (fl_round neg
                         (of_int (digits_val (ip @ fp)) * pow10 (ex - int (length fp))))))"

text \<open>\<open>inf\<close>, \<open>infinity\<close> and \<open>nan\<close> in any case, with an optional sign.\<close>

definition parse_inf_or_nan :: "string \<Rightarrow> pyfloat option" where
  "parse_inf_or_nan s =
     (let (neg, r) = parse_sign s; w = map to_lower r
      in if w = ''inf'' \<or> w = ''infinity'' then Some (Infinity neg)
         else if w = ''nan'' then Some NaN
         else None)"

definition py_float :: "string \<Rightarrow> error + pyfloat" where
  "py_float s =
     (case (if CHR ''_'' \<in> set s then strip_underscores (CHR 0x00) s else Some s) of
        None \<Rightarrow> Inl ValueError
      | Some u \<Rightarrow>
          (let t = strip_space u
           in case parse_decimal t of
                Some v \<Rightarrow> Inr v
              | None \<Rightarrow> (case parse_inf_or_nan t of
                           Some v \<Rightarrow> Inr v
                         | None \<Rightarrow> Inl ValueError)))"

text \<open>A float literal of the source text (such as \<open>0.0117\<close> or \<open>1e12\<close>) and an integer
  constant converted to float (such as the \<open>73350\<close> subtracted from a float).\<close>

definition float_lit :: "string \<Rightarrow> pyfloat" where
  "float_lit s = (case parse_decimal s of Some v \<Rightarrow> v | None \<Rightarrow> NaN)"

definition float_of_int :: "int \<Rightarrow> pyfloat" where
  "float_of_int n = fl_round (n < 0) (of_int \<bar>n\<bar>)"

subsection \<open>Formatting a float with \<open>:.pf\<close>\<close>

text \<open>Fixed-point notation with \<open>p\<close> digits after the point, the exact binary value
  rounded half-even at that digit; the sign is the float's sign bit.\<close>

fun format_f :: "nat \<Rightarrow> pyfloat \<Rightarrow> string" where
  "format_f p NaN = ''nan''"
| "format_f p (Infinity s) = (if s then ''-inf'' else ''inf'')"
| "format_f p (Finite s m e) =
     (let n = round_half_even (mag (Finite s m e) * 10 ^ p)
      in (if s then ''-'' else '''') @ str_int (n div 10 ^ p) @
         (if p = 0 then '''' else ''.'' @ zfill p (str_int (n mod 10 ^ p))))"

subsection \<open>Dictionaries returned as JSON\<close>

text \<open>The handler returns dictionaries from field names to a string or a float; they are
  kept as association lists in insertion order, which is the order of the JSON output.\<close>

datatype pyval = Str string | Float pyfloat

type_synonym pydict = "(string \<times> pyval) list"

section \<open>The calculators\<close>

text \<open>Each calculator takes the address (which none of them reads) and the validated
  value. Only the division in \<open>washington_dc\<close> can raise.\<close>

definition california :: "string \<Rightarrow> pyfloat \<Rightarrow> error + pydict" where
  "california address value =
     (let property_tax_effective_rate = float_lit ''0.01143'';
          property_tax_amount = format_f 2 (fmul value property_tax_effective_rate);
          information = ''Based on the California statewide average property tax rate''
      in Inr [(''property_tax_amount'', Str property_tax_amount),
              (''property_tax_effective_rate'', Float property_tax_effective_rate),
              (''information'', Str information)])"

definition colorado :: "string \<Rightarrow> pyfloat \<Rightarrow> error + pydict" where
  "colorado address value =
     (let property_tax_effective_rate = float_lit ''0.0057'';
          property_tax_amount = format_f 2 (fmul value property_tax_effective_rate);
          information = ''Based on the Colorado statewide average property tax rate''
      in Inr [(''property_tax_amount'', Str property_tax_amount),
              (''property_tax_effective_rate'', Float property_tax_effective_rate),
              (''information'', Str information)])"

definition washington_dc :: "string \<Rightarrow> pyfloat \<Rightarrow> error + pydict" where
  "washington_dc amount value =
     (let assessed_value = max_zero (fsub value (float_of_int 73350));
          property_tax_amount = fmul assessed_value (float_lit ''0.0085'')
      in case fdiv property_tax_amount value of
           Inl err \<Rightarrow> Inl err
         | Inr property_tax_effective_rate \<Rightarrow>
             (let information =
                ''Based on DC-wide property tax rate after application of homestead exemption''
              in Inr [(''property_tax_amount'', Str (format_f 2 property_tax_amount)),
                      (''property_tax_effective_rate'',
                         Str (format_f 5 property_tax_effective_rate)),
                      (''information'', Str information)]))"

definition default_calc :: "string \<Rightarrow> pyfloat \<Rightarrow> error + pydict" where
  "default_calc address value =
     (let property_tax_effective_rate = float_lit ''0.0117'';
          property_tax_amount = format_f 2 (fmul value property_tax_effective_rate);
          information = ''Based on the nationwide average property tax rate''
      in Inr [(''property_tax_amount'', Str property_tax_amount),
              (''property_tax_effective_rate'', Float property_tax_effective_rate),
              (''information'', Str information)])"

definition state_map :: "(string \<times> (string \<Rightarrow> pyfloat \<Rightarrow> error + pydict)) list" where
  "state_map = [(''CA'', california), (''CO'', colorado), (''DC'', washington_dc)]"

section \<open>The endpoint\<close>

text \<open>\<open>re.search("[A-Z]{2}", address)\<close> followed by \<open>group(0)\<close>: the leftmost two
  adjacent characters that are both in \<open>A\<close> to \<open>Z\<close>.\<close>

fun re_search :: "string \<Rightarrow> string option" where
  "re_search (a # b # cs) =
     (if is_upper a \<and> is_upper b then Some [a, b] else re_search (b # cs))"
| "re_search [a] = None"
| "re_search [] = None"

text \<open>
  The request as the framework hands it over. Of it the handler reads the query
  parameters only: \<open>request.query.name\<close> is the last value given for \<open>name\<close>, and the
  empty string when the parameter is missing. The response object starts every request
  with status 200.
\<close>

record request =
  query :: "(string \<times> string) list"
  headers :: "(string \<times> string) list"
  path :: string

record response =
  status :: nat

definition query_attr :: "request \<Rightarrow> string \<Rightarrow> string" where
  "query_attr req name = (case map_of (rev (query req)) name of None \<Rightarrow> [] | Some v \<Rightarrow> v)"

definition fresh_response :: response where
  "fresh_response = \<lparr>status = 200\<rparr>"

definition error_dict :: "string \<Rightarrow> pydict" where
  "error_dict msg = [(''error'', Str msg)]"

definition lookup_state ::
    "string option \<Rightarrow> (string \<Rightarrow> pyfloat \<Rightarrow> error + pydict) option" where
  "lookup_state state = (case state of None \<Rightarrow> None | Some st \<Rightarrow> map_of state_map st)"

definition ptax :: "request \<Rightarrow> response \<Rightarrow> (error + pydict) \<times> response" where
  "ptax req resp =
     (let value = query_attr req ''value''
      in if value = [] then (Inr (error_dict ''No value provided''), resp\<lparr>status := 400\<rparr>)
         else
           case py_float value of
             Inl err \<Rightarrow>
               (if err = ValueError
                then (Inr (error_dict ''Bad value provided''), resp\<lparr>status := 400\<rparr>)
                else (Inl err, resp))
           | Inr v \<Rightarrow>
               if flt v (float_lit ''1e3'') \<or> fgt v (float_lit ''1e12'')
               then (Inr (error_dict ''Value out of range''), resp\<lparr>status := 400\<rparr>)
               else
                 (let address = query_attr req ''address'';
                      state = re_search address
                  in if address \<noteq> [] \<and> state = None
                     then (Inr (error_dict
                                  ''Please include two-character state (e.g., CA) in address.''),
                           resp\<lparr>status := 400\<rparr>)
                     else if address = [] then (default_calc address v, resp)
                     else (case lookup_state state of
                             None \<Rightarrow> (default_calc address v, resp)
                           | Some fn \<Rightarrow> (fn address v, resp))))"

text \<open>What the client receives: the status and the dictionary, or the framework's
  500 page when the handler raised.\<close>

datatype reply = Reply nat pydict | Server_Error error

definition serve :: "request \<Rightarrow> reply" where
  "serve req =
     (case ptax req fresh_response of
        (Inr d, resp) \<Rightarrow> Reply (status resp) d
      | (Inl err, resp) \<Rightarrow> Server_Error err)"

text \<open>A request with the given query parameters, and the validation that precedes the
  dispatch, as a function of the value parameter.\<close>

definition get_request :: "(string \<times> string) list \<Rightarrow> request" where
  "get_request q = \<lparr>query = q, headers = [], path = ''/ptax''\<rparr>"

section \<open>Notions used to state the properties\<close>

text \<open>The field of a reply's dictionary, when there is one.\<close>

fun reply_field :: "reply \<Rightarrow> string \<Rightarrow> pyval option" where
  "reply_field (Reply n d) k = map_of d k"
| "reply_field (Server_Error err) k = None"

text \<open>Position \<open>i\<close> of the address starts two adjacent uppercase Latin letters.\<close>

definition is_match :: "string \<Rightarrow> nat \<Rightarrow> bool" where
  "is_match a i = (Suc i < length a \<and> is_upper (a ! i) \<and> is_upper (a ! Suc i))"

text \<open>The value string \<open>s\<close> gets through the three checks on the value, as the float
  \<open>v\<close>.\<close>

definition passes_validation :: "string \<Rightarrow> pyfloat \<Rightarrow> bool" where
  "passes_validation s v =
     (s \<noteq> [] \<and> py_float s = Inr v \<and>
      \<not> (flt v (float_lit ''1e3'') \<or> fgt v (float_lit ''1e12'')))"

text \<open>\<open>1000 <= v <= 1e12\<close> as comparisons of floats.\<close>

definition in_range :: "pyfloat \<Rightarrow> bool" where
  "in_range v = (fle (float_lit ''1e3'') v \<and> fle v (float_lit ''1e12''))"

text \<open>The query has a parameter of that name.\<close>

definition has_param :: "request \<Rightarrow> string \<Rightarrow> bool" where
  "has_param req name = (name \<in> fst ` set (query req))"

definition result_dict :: "pyval \<Rightarrow> pyval \<Rightarrow> string \<Rightarrow> pydict" where
  "result_dict amount rate information =
     [(''property_tax_amount'', amount),
      (''property_tax_effective_rate'', rate),
      (''information'', Str information)]"

definition malformed_address :: string where
  "malformed_address = ''Please include two-character state (e.g., CA) in address.''"

section \<open>Constants of the source\<close>

lemma lit_1e3: "float_lit ''1e3'' = Finite False 8796093022208000 (- 43)"
  by code_simp

lemma lit_1e12: "float_lit ''1e12'' = Finite False 8192000000000000 (- 13)"
  by code_simp


lemma lit_california_rate: "float_lit ''0.01143'' = Finite False 6588946398828130 (- 59)"
  by code_simp

lemma lit_colorado_rate: "float_lit ''0.0057'' = Finite False 6571652576259028 (- 60)"
  by code_simp



section \<open>Basic facts\<close>

lemma pow2_pos: "0 < pow2 e"
  by (simp add: pow2_def)

lemma zero_below_1e3:
  assumes "is_zero v"
  shows "flt v (float_lit ''1e3'')"
proof (cases v)
  case (Finite s m e)
  with assms have "m = 0" by simp
  with Finite show ?thesis by (simp add: lit_1e3 pow2_pos)
qed (use assms in simp_all)

lemma query_attr_absent: "\<not> has_param req name \<Longrightarrow> query_attr req name = []"
  by (auto simp: has_param_def query_attr_def split: option.splits dest!: map_of_SomeD
      intro: rev_image_eqI)

lemma py_float_error: "py_float s = Inl err \<Longrightarrow> err = ValueError"
  by (simp add: py_float_def Let_def split: option.splits if_splits)

lemma default_calc_eq:
  "default_calc a v = Inr (result_dict (Str (format_f 2 (fmul v (float_lit ''0.0117''))))
       (Float (float_lit ''0.0117'')) ''Based on the nationwide average property tax rate'')"
  by (simp add: default_calc_def result_dict_def Let_def)

lemma serve_no_address:
  assumes "passes_validation (query_attr req ''value'') v"
    and "query_attr req ''address'' = []"
  shows "serve req = Reply 200 (result_dict (Str (format_f 2 (fmul v (float_lit ''0.0117''))))
       (Float (float_lit ''0.0117'')) ''Based on the nationwide average property tax rate'')"
  using assms
  by (simp add: serve_def ptax_def passes_validation_def Let_def fresh_response_def
      default_calc_eq)

section \<open>The worked examples\<close>

text \<open>
  C4, as the code computes it: for the address \<open>1600 Pennsylvania Ave, Washington, DC\<close> and
  the value \<open>500000\<close> the reply is 200 with the amount \<open>3626.53\<close>, which is
  \<open>(500000 - 73350) * 0.0085\<close> in floats, and the rate the string \<open>0.00725\<close>.
\<close>

theorem dc_example_reply:
  "serve (get_request [(''address'', ''1600 Pennsylvania Ave, Washington, DC''),
                       (''value'', ''500000'')]) =
   Reply 200 (result_dict (Str ''3626.53'') (Str ''0.00725'')
     ''Based on DC-wide property tax rate after application of homestead exemption'')"
  by code_simp

text \<open>The amount \<open>3625.03\<close> that C4 states is not the one returned.\<close>

theorem dc_example_amount_counterexample:
  "reply_field (serve (get_request [(''address'', ''1600 Pennsylvania Ave, Washington, DC''),
                                    (''value'', ''500000'')])) ''property_tax_amount''
   \<noteq> Some (Str ''3625.03'')"
  by code_simp

text \<open>
  C5, as the code computes it: for the address \<open>1 Infinite Loop, Cupertino, CA\<close> and the
  value \<open>500000\<close> the reply is 200 with the amount \<open>5715.00\<close> and the rate the float
  \<open>0.01143\<close>.
\<close>

theorem ca_example_reply:
  "serve (get_request [(''address'', ''1 Infinite Loop, Cupertino, CA''),
                       (''value'', ''500000'')]) =
   Reply 200 (result_dict (Str ''5715.00'') (Float (float_lit ''0.01143''))
     ''Based on the California statewide average property tax rate'')"
  by code_simp

text \<open>The amount \<open>57150.00\<close> that C5 states is not the one returned.\<close>

theorem ca_example_amount_counterexample:
  "reply_field (serve (get_request [(''address'', ''1 Infinite Loop, Cupertino, CA''),
                                    (''value'', ''500000'')])) ''property_tax_amount''
   \<noteq> Some (Str ''57150.00'')"
  by code_simp

section \<open>Validation of the value\<close>

text \<open>
  C6 fails on the code: the value string \<open>nan\<close> parses to a NaN, which is neither below
  \<open>1e3\<close> nor above \<open>1e12\<close>, so it passes the range check, reaches the default calculator
  and comes back as the amount \<open>nan\<close> with status 200.
\<close>

theorem nan_passes_validation:
  "py_float ''nan'' = Inr NaN \<and> passes_validation ''nan'' NaN \<and> \<not> in_range NaN \<and>
   serve (get_request [(''value'', ''nan'')]) =
     Reply 200 (result_dict (Str ''nan'') (Float (float_lit ''0.0117''))
       ''Based on the nationwide average property tax rate'')"
  by code_simp

section \<open>An empty address\<close>

text \<open>
  C10: with a value that passes validation, a request whose address parameter is the
  empty string gets the reply of the request without an address parameter: status 200
  and the default calculator's dictionary, not the malformed-address error.
\<close>

theorem empty_address_like_absent:
  assumes "passes_validation (query_attr r1 ''value'') v"
    and "query_attr r2 ''value'' = query_attr r1 ''value''"
    and "has_param r1 ''address''" and "query_attr r1 ''address'' = []"
    and "\<not> has_param r2 ''address''"
  shows "serve r1 = serve r2 \<and>
         serve r1 = Reply 200 (result_dict (Str (format_f 2 (fmul v (float_lit ''0.0117''))))
           (Float (float_lit ''0.0117''))
           ''Based on the nationwide average property tax rate'')"
  using assms serve_no_address [of r1 v] serve_no_address [of r2 v]
  by (simp add: query_attr_absent)

theorem empty_address_like_absent_witness:
  "passes_validation (query_attr (get_request [(''value'', ''1000''), (''address'', '''')])
      ''value'') (float_lit ''1e3'') \<and>
   has_param (get_request [(''value'', ''1000''), (''address'', '''')]) ''address'' \<and>
   \<not> has_param (get_request [(''value'', ''1000'')]) ''address'' \<and>
   serve (get_request [(''value'', ''1000''), (''address'', '''')]) =
     serve (get_request [(''value'', ''1000'')]) \<and>
   serve (get_request [(''value'', ''1000''), (''address'', '''')]) =
     Reply 200 (result_dict (Str (format_f 2 (fmul (float_lit ''1e3'') (float_lit ''0.0117''))))
       (Float (float_lit ''0.0117'')) ''Based on the nationwide average property tax rate'')"
proof -
  have v: "passes_validation (query_attr (get_request [(''value'', ''1000''), (''address'', '''')])
      ''value'') (float_lit ''1e3'')"
    by code_simp
  have q: "query_attr (get_request [(''value'', ''1000'')]) ''value'' =
      query_attr (get_request [(''value'', ''1000''), (''address'', '''')]) ''value''"
    by (simp add: query_attr_def get_request_def)
  have h1: "has_param (get_request [(''value'', ''1000''), (''address'', '''')]) ''address''"
    by (simp add: has_param_def get_request_def)
  have e: "query_attr (get_request [(''value'', ''1000''), (''address'', '''')]) ''address'' = []"
    by (simp add: query_attr_def get_request_def)
  have h2: "\<not> has_param (get_request [(''value'', ''1000'')]) ''address''"
    by (simp add: has_param_def get_request_def)
  from empty_address_like_absent [OF v q h1 e h2] v h1 h2 show ?thesis
    by blast
qed

section \<open>Floats: comparisons, rounding and signs\<close>

lemma fle_not_flt: "fle a b \<Longrightarrow> \<not> flt b a"
  by (cases a; cases b) auto


lemma in_range_not_rejected:
  "in_range v \<Longrightarrow> \<not> (flt v (float_lit ''1e3'') \<or> fgt v (float_lit ''1e12''))"
  by (simp add: in_range_def fgt_def fle_not_flt)









section \<open>The address pattern\<close>

lemma is_match_0: "is_match (a # b # cs) 0 = (is_upper a \<and> is_upper b)"
  by (simp add: is_match_def)

lemma is_match_Suc: "is_match (a # xs) (Suc i) = is_match xs i"
  by (simp add: is_match_def)

lemma re_search_None_iff: "re_search a = None \<longleftrightarrow> (\<forall>i. \<not> is_match a i)"
proof (induction a rule: re_search.induct)
  case (1 a b cs)
  show ?case
  proof (cases "is_upper a \<and> is_upper b")
    case True
    then have "is_match (a # b # cs) 0" by (simp add: is_match_0)
    with True show ?thesis by auto
  next
    case False
    have "(\<forall>i. \<not> is_match (a # b # cs) i) \<longleftrightarrow> (\<forall>i. \<not> is_match (b # cs) i)"
    proof
      assume h: "\<forall>i. \<not> is_match (a # b # cs) i"
      show "\<forall>i. \<not> is_match (b # cs) i"
      proof
        fix i from h have "\<not> is_match (a # b # cs) (Suc i)" by blast
        then show "\<not> is_match (b # cs) i" by (simp add: is_match_Suc)
      qed
    next
      assume h: "\<forall>i. \<not> is_match (b # cs) i"
      show "\<forall>i. \<not> is_match (a # b # cs) i"
      proof
        fix i show "\<not> is_match (a # b # cs) i"
          using h False by (cases i) (simp_all add: is_match_0 is_match_Suc)
      qed
    qed
    with False 1 show ?thesis by auto
  qed
next
  case (2 a)
  show ?case by (simp add: is_match_def)
next
  case 3
  show ?case by (simp add: is_match_def)
qed


section \<open>Calculators and dispatch\<close>

lemma california_eq:
  "california a v = Inr (result_dict (Str (format_f 2 (fmul v (float_lit ''0.01143''))))
       (Float (float_lit ''0.01143''))
       ''Based on the California statewide average property tax rate'')"
  by (simp add: california_def result_dict_def Let_def)

lemma colorado_eq:
  "colorado a v = Inr (result_dict (Str (format_f 2 (fmul v (float_lit ''0.0057''))))
       (Float (float_lit ''0.0057''))
       ''Based on the Colorado statewide average property tax rate'')"
  by (simp add: colorado_def result_dict_def Let_def)

lemma washington_dc_eq:
  assumes "\<not> is_zero v"
  shows "washington_dc a v =
     Inr (result_dict
       (Str (format_f 2 (fmul (max_zero (fsub v (float_of_int 73350))) (float_lit ''0.0085''))))
       (Str (format_f 5 (fdiv_ieee
          (fmul (max_zero (fsub v (float_of_int 73350))) (float_lit ''0.0085'')) v)))
       ''Based on DC-wide property tax rate after application of homestead exemption'')"
  using assms by (simp add: washington_dc_def result_dict_def Let_def fdiv_def)

lemma lookup_state_eq:
  "lookup_state (Some st) =
     (if st = ''CA'' then Some california else if st = ''CO'' then Some colorado
      else if st = ''DC'' then Some washington_dc else None)"
  by (simp add: lookup_state_def state_map_def)

lemma ptax_dispatch:
  assumes "passes_validation (query_attr req ''value'') v"
    and "re_search (query_attr req ''address'') = Some st"
  shows "ptax req resp =
     ((if st = ''CA'' then california (query_attr req ''address'') v
       else if st = ''CO'' then colorado (query_attr req ''address'') v
       else if st = ''DC'' then washington_dc (query_attr req ''address'') v
       else default_calc (query_attr req ''address'') v), resp)"
proof -
  from assms(2) have ne: "query_attr req ''address'' \<noteq> []" by auto
  with assms show ?thesis
    by (simp add: ptax_def passes_validation_def Let_def lookup_state_eq)
qed

lemma ptax_malformed:
  assumes "passes_validation (query_attr req ''value'') v"
    and "query_attr req ''address'' \<noteq> []"
    and "re_search (query_attr req ''address'') = None"
  shows "ptax req resp = (Inr (error_dict malformed_address), resp\<lparr>status := 400\<rparr>)"
  using assms by (simp add: ptax_def passes_validation_def Let_def malformed_address_def)

lemma calculators_return:
  assumes "\<not> is_zero v"
  shows "\<exists>d. (if st = ''CA'' then california a v
       else if st = ''CO'' then colorado a v
       else if st = ''DC'' then washington_dc a v
       else default_calc a v) = Inr d"
  using assms by (simp add: california_eq colorado_eq washington_dc_eq default_calc_eq)

lemma serve_accepted:
  assumes "passes_validation (query_attr req ''value'') v"
    and "query_attr req ''address'' = [] \<or> re_search (query_attr req ''address'') \<noteq> None"
  shows "\<exists>d. serve req = Reply 200 d"
proof (cases "query_attr req ''address'' = []")
  case True
  with assms(1) show ?thesis using serve_no_address by blast
next
  case False
  with assms(2) obtain st where st: "re_search (query_attr req ''address'') = Some st"
    by auto
  from assms(1) have "\<not> is_zero v"
    using zero_below_1e3 by (auto simp: passes_validation_def)
  from calculators_return [OF this, of st "query_attr req ''address''"]
  obtain d where "(if st = ''CA'' then california (query_attr req ''address'') v
       else if st = ''CO'' then colorado (query_attr req ''address'') v
       else if st = ''DC'' then washington_dc (query_attr req ''address'') v
       else default_calc (query_attr req ''address'') v) = Inr d" by blast
  with ptax_dispatch [OF assms(1) st, of fresh_response] have "serve req = Reply 200 d"
    by (simp add: serve_def fresh_response_def)
  then show ?thesis by blast
qed

lemma serve_no_value:
  "query_attr req ''value'' = [] \<Longrightarrow> serve req = Reply 400 (error_dict ''No value provided'')"
  by (simp add: serve_def ptax_def fresh_response_def)

lemma serve_bad_value:
  "query_attr req ''value'' \<noteq> [] \<Longrightarrow> py_float (query_attr req ''value'') = Inl err \<Longrightarrow>
   serve req = Reply 400 (error_dict ''Bad value provided'')"
  by (frule py_float_error) (simp add: serve_def ptax_def fresh_response_def)

lemma serve_out_of_range:
  "query_attr req ''value'' \<noteq> [] \<Longrightarrow> py_float (query_attr req ''value'') = Inr v \<Longrightarrow>
   flt v (float_lit ''1e3'') \<or> fgt v (float_lit ''1e12'') \<Longrightarrow>
   serve req = Reply 400 (error_dict ''Value out of range'')"
  by (simp add: serve_def ptax_def fresh_response_def)

lemma serve_malformed:
  assumes "passes_validation (query_attr req ''value'') v"
    and "query_attr req ''address'' \<noteq> []"
    and "re_search (query_attr req ''address'') = None"
  shows "serve req = Reply 400 (error_dict malformed_address)"
  using ptax_malformed [OF assms, of fresh_response] by (simp add: serve_def)

lemma valof_1e3: "valof (float_lit ''1e3'') = 1000"
  by (simp add: lit_1e3 pow2_def)

lemma valof_1e12: "valof (float_lit ''1e12'') = 10 ^ 12"
  by (simp add: lit_1e12 pow2_def)

lemma error_dicts_differ: "error_dict malformed_address \<noteq> error_dict ''Value out of range''"
  by (simp add: error_dict_def malformed_address_def)

lemma passes_validation_cases:
  assumes "passes_validation (query_attr req ''value'') v"
  shows "serve req = Reply 400 (error_dict malformed_address) \<or> (\<exists>d. serve req = Reply 200 d)"
proof (cases "query_attr req ''address'' = [] \<or> re_search (query_attr req ''address'') \<noteq> None")
  case True
  with assms show ?thesis using serve_accepted by blast
next
  case False
  with assms show ?thesis using serve_malformed by blast
qed

section \<open>The range check\<close>

text \<open>
  C7: for a value string that parses to the float \<open>v\<close>, the reply is 400 with the error
  \<open>Value out of range\<close> exactly when \<open>v < 1e3\<close> or \<open>v > 1e12\<close> holds as a comparison of
  floats; the two bounds themselves are not rejected; and for a finite \<open>v\<close> the
  comparisons are those of its exact value with 1000 and \<open>10^12\<close>.
\<close>

theorem out_of_range_iff:
  assumes "query_attr req ''value'' \<noteq> []" and "py_float (query_attr req ''value'') = Inr v"
  shows "((serve req = Reply 400 (error_dict ''Value out of range'')) =
            (flt v (float_lit ''1e3'') \<or> fgt v (float_lit ''1e12''))) \<and>
         (v = float_lit ''1e3'' \<or> v = float_lit ''1e12'' \<longrightarrow>
            serve req \<noteq> Reply 400 (error_dict ''Value out of range'')) \<and>
         (is_finite v \<longrightarrow> flt v (float_lit ''1e3'') = (valof v < 1000) \<and>
                            fgt v (float_lit ''1e12'') = (10 ^ 12 < valof v))"
proof -
  have iff: "(serve req = Reply 400 (error_dict ''Value out of range'')) =
            (flt v (float_lit ''1e3'') \<or> fgt v (float_lit ''1e12''))"
  proof (cases "flt v (float_lit ''1e3'') \<or> fgt v (float_lit ''1e12'')")
    case True
    with assms show ?thesis using serve_out_of_range by blast
  next
    case False
    with assms have "passes_validation (query_attr req ''value'') v"
      by (simp add: passes_validation_def)
    from passes_validation_cases [OF this] False show ?thesis
      using error_dicts_differ by auto
  qed
  have bounds: "\<not> (flt v (float_lit ''1e3'') \<or> fgt v (float_lit ''1e12''))"
    if "v = float_lit ''1e3'' \<or> v = float_lit ''1e12''"
    using that by (auto simp: lit_1e3 lit_1e12 fgt_def pow2_def)
  have fin: "flt v (float_lit ''1e3'') = (valof v < 1000) \<and>
             fgt v (float_lit ''1e12'') = (10 ^ 12 < valof v)" if "is_finite v"
  proof (cases v)
    case (Finite s m e)
    have "flt v (float_lit ''1e3'') = (valof v < valof (float_lit ''1e3''))"
      unfolding Finite lit_1e3 by simp
    moreover have "fgt v (float_lit ''1e12'') = (valof (float_lit ''1e12'') < valof v)"
      unfolding Finite lit_1e12 fgt_def by simp
    ultimately show ?thesis by (simp only: valof_1e3 valof_1e12)
  qed (use that in simp_all)
  from iff bounds fin show ?thesis by blast
qed

theorem out_of_range_iff_witness:
  "query_attr (get_request [(''value'', ''999.99'')]) ''value'' \<noteq> [] \<and>
   py_float (query_attr (get_request [(''value'', ''999.99'')]) ''value'') =
     Inr (Finite False 8796005061277778 (- 43)) \<and>
   flt (Finite False 8796005061277778 (- 43)) (float_lit ''1e3'') \<and>
   serve (get_request [(''value'', ''999.99'')]) = Reply 400 (error_dict ''Value out of range'')"
proof -
  have a: "query_attr (get_request [(''value'', ''999.99'')]) ''value'' \<noteq> []"
    by (simp add: query_attr_def get_request_def)
  have b: "py_float (query_attr (get_request [(''value'', ''999.99'')]) ''value'') =
     Inr (Finite False 8796005061277778 (- 43))"
    by code_simp
  have c: "flt (Finite False 8796005061277778 (- 43)) (float_lit ''1e3'')"
    by code_simp
  from out_of_range_iff [OF a b] a b c show ?thesis by blast
qed

section \<open>The four validation errors\<close>

text \<open>
  C3 does not hold for an address parameter that is given but empty: it contains no two
  adjacent uppercase letters, and still the reply is 200 with the default calculator's
  dictionary.
\<close>

theorem empty_address_not_rejected:
  "has_param (get_request [(''value'', ''5000''), (''address'', '''')]) ''address'' \<and>
   re_search (query_attr (get_request [(''value'', ''5000''), (''address'', '''')]) ''address'')
     = None \<and>
   serve (get_request [(''value'', ''5000''), (''address'', '''')]) =
     Reply 200 (result_dict (Str ''58.50'') (Float (float_lit ''0.0117''))
       ''Based on the nationwide average property tax rate'')"
  by code_simp

lemma not_in_range_iff:
  assumes "v \<noteq> NaN"
  shows "(\<not> in_range v) = (flt v (float_lit ''1e3'') \<or> fgt v (float_lit ''1e12''))"
  using assms by (cases v) (auto simp: in_range_def fgt_def lit_1e3 lit_1e12)

text \<open>
  C3, with the fourth failure read as the code has it (a non-empty address without two
  adjacent uppercase letters), for a value that does not parse to a NaN: the status is
  400 exactly when one of the four failures holds (no value, a value that does not
  parse, a parsed value outside of \<open>1000 <= v <= 1e12\<close>, a malformed address); the checks
  come in this order, each with its own message, so an error of the value takes
  precedence over the one of the address; in every other case the status is 200.
\<close>

theorem status_400_iff_validation_failure:
  assumes "py_float (query_attr req ''value'') \<noteq> Inr NaN"
  shows
  "((\<exists>d. serve req = Reply 400 d) \<longleftrightarrow>
      query_attr req ''value'' = [] \<or>
      (\<exists>err. py_float (query_attr req ''value'') = Inl err) \<or>
      (\<exists>v. py_float (query_attr req ''value'') = Inr v \<and> \<not> in_range v) \<or>
      (query_attr req ''address'' \<noteq> [] \<and> (\<forall>i. \<not> is_match (query_attr req ''address'') i))) \<and>
   (query_attr req ''value'' = [] \<longrightarrow>
      serve req = Reply 400 (error_dict ''No value provided'')) \<and>
   (query_attr req ''value'' \<noteq> [] \<and> py_float (query_attr req ''value'') = Inl err \<longrightarrow>
      serve req = Reply 400 (error_dict ''Bad value provided'')) \<and>
   (query_attr req ''value'' \<noteq> [] \<and> py_float (query_attr req ''value'') = Inr v \<and>
    \<not> in_range v \<longrightarrow>
      serve req = Reply 400 (error_dict ''Value out of range'')) \<and>
   (query_attr req ''value'' \<noteq> [] \<and> py_float (query_attr req ''value'') = Inr v \<and>
    in_range v \<and> query_attr req ''address'' \<noteq> [] \<and>
    (\<forall>i. \<not> is_match (query_attr req ''address'') i) \<longrightarrow>
      serve req = Reply 400
        (error_dict ''Please include two-character state (e.g., CA) in address.'')) \<and>
   (query_attr req ''value'' \<noteq> [] \<and> py_float (query_attr req ''value'') = Inr v \<and>
    in_range v \<and>
    (query_attr req ''address'' = [] \<or> (\<exists>i. is_match (query_attr req ''address'') i)) \<longrightarrow>
      (\<exists>d. serve req = Reply 200 d))"
proof -
  let ?val = "query_attr req ''value''" and ?addr = "query_attr req ''address''"
  have none: "re_search ?addr = None \<longleftrightarrow> (\<forall>i. \<not> is_match ?addr i)"
    by (rule re_search_None_iff)
  have range: "(\<not> in_range w) = (flt w (float_lit ''1e3'') \<or> fgt w (float_lit ''1e12''))"
    if "py_float ?val = Inr w" for w
    using that assms by (intro not_in_range_iff) auto
  have pv: "passes_validation ?val w" if "?val \<noteq> []" "py_float ?val = Inr w" "in_range w" for w
    using that in_range_not_rejected by (simp add: passes_validation_def)
  have p1: "?val = [] \<longrightarrow> serve req = Reply 400 (error_dict ''No value provided'')"
    using serve_no_value by blast
  have p2: "?val \<noteq> [] \<and> py_float ?val = Inl e \<longrightarrow>
      serve req = Reply 400 (error_dict ''Bad value provided'')" for e
    using serve_bad_value by blast
  have p3: "?val \<noteq> [] \<and> py_float ?val = Inr w \<and> \<not> in_range w \<longrightarrow>
      serve req = Reply 400 (error_dict ''Value out of range'')" for w
    using serve_out_of_range range by blast
  have p4: "?val \<noteq> [] \<and> py_float ?val = Inr w \<and> in_range w \<and> ?addr \<noteq> [] \<and>
      (\<forall>i. \<not> is_match ?addr i) \<longrightarrow>
      serve req = Reply 400 (error_dict malformed_address)" for w
    using serve_malformed none pv by blast
  have p5: "?val \<noteq> [] \<and> py_float ?val = Inr w \<and> in_range w \<and>
      (?addr = [] \<or> (\<exists>i. is_match ?addr i)) \<longrightarrow> (\<exists>d. serve req = Reply 200 d)" for w
    using serve_accepted [of req w] none pv [of w] by auto
  have iff: "(\<exists>d. serve req = Reply 400 d) \<longleftrightarrow>
      ?val = [] \<or> (\<exists>err. py_float ?val = Inl err) \<or>
      (\<exists>v. py_float ?val = Inr v \<and> \<not> in_range v) \<or>
      (?addr \<noteq> [] \<and> (\<forall>i. \<not> is_match ?addr i))"
  proof (cases "?val = []")
    case True
    with p1 show ?thesis by auto
  next
    case ne: False
    show ?thesis
    proof (cases "py_float ?val")
      case (Inl e)
      with ne p2 [of e] show ?thesis by auto
    next
      case (Inr w)
      show ?thesis
      proof (cases "in_range w")
        case False
        with ne Inr p3 [of w] show ?thesis by auto
      next
        case True
        show ?thesis
        proof (cases "?addr \<noteq> [] \<and> (\<forall>i. \<not> is_match ?addr i)")
          case bad: True
          with ne Inr True p4 [of w] show ?thesis by auto
        next
          case no: False
          with ne Inr True p5 [of w] obtain d where "serve req = Reply 200 d" by blast
          with ne Inr True no show ?thesis by auto
        qed
      qed
    qed
  qed
  from iff p1 p2 [of err] p3 [of v] p4 [of v] p5 [of v] show ?thesis
    unfolding malformed_address_def by blast
qed

theorem status_400_iff_validation_failure_witness:
  "py_float (query_attr (get_request [(''address'', ''123 Main St''), (''value'', ''1000'')])
      ''value'') \<noteq> Inr NaN \<and>
   query_attr (get_request [(''address'', ''123 Main St''), (''value'', ''1000'')]) ''value''
     \<noteq> [] \<and>
   py_float (query_attr (get_request [(''address'', ''123 Main St''), (''value'', ''1000'')])
      ''value'') = Inr (float_lit ''1e3'') \<and>
   in_range (float_lit ''1e3'') \<and>
   query_attr (get_request [(''address'', ''123 Main St''), (''value'', ''1000'')]) ''address''
     \<noteq> [] \<and>
   (\<forall>i. \<not> is_match (query_attr
      (get_request [(''address'', ''123 Main St''), (''value'', ''1000'')]) ''address'') i) \<and>
   serve (get_request [(''address'', ''123 Main St''), (''value'', ''1000'')]) =
     Reply 400 (error_dict ''Please include two-character state (e.g., CA) in address.'')"
proof -
  let ?r = "get_request [(''address'', ''123 Main St''), (''value'', ''1000'')]"
  have p: "py_float (query_attr ?r ''value'') = Inr (float_lit ''1e3'')"
    by code_simp
  have n: "py_float (query_attr ?r ''value'') \<noteq> Inr NaN"
    unfolding p lit_1e3 by simp
  have e: "query_attr ?r ''value'' \<noteq> []"
    by (simp add: query_attr_def get_request_def)
  have a: "in_range (float_lit ''1e3'')"
    by code_simp
  have b: "query_attr ?r ''address'' \<noteq> []"
    by (simp add: query_attr_def get_request_def)
  have "re_search (query_attr ?r ''address'') = None"
    by code_simp
  then have c: "\<forall>i. \<not> is_match (query_attr ?r ''address'') i"
    by (simp add: re_search_None_iff)
  from status_400_iff_validation_failure [OF n, of ValueError "float_lit ''1e3''"] p n e a b c
  show ?thesis by blast
qed

section \<open>Bounds on rounding\<close>











section \<open>Dispatch on the state code\<close>



section \<open>No address\<close>



section \<open>The calculators never fail on a value in range\<close>



section \<open>Dependence on the query parameters only\<close>

lemma ptax_shape:
  "\<exists>d. (\<forall>resp. ptax req resp = (d, resp\<lparr>status := 400\<rparr>)) \<or> (\<forall>resp. ptax req resp = (d, resp))"
proof (cases "query_attr req ''value'' = []")
  case True
  then have "\<forall>resp. ptax req resp =
      (Inr (error_dict ''No value provided''), resp\<lparr>status := 400\<rparr>)"
    by (simp add: ptax_def)
  then show ?thesis by blast
next
  case ne: False
  show ?thesis
  proof (cases "py_float (query_attr req ''value'')")
    case (Inl e)
    then have "e = ValueError" by (rule py_float_error)
    with ne Inl have "\<forall>resp. ptax req resp =
        (Inr (error_dict ''Bad value provided''), resp\<lparr>status := 400\<rparr>)"
      by (simp add: ptax_def)
    then show ?thesis by blast
  next
    case (Inr v)
    show ?thesis
    proof (cases "flt v (float_lit ''1e3'') \<or> fgt v (float_lit ''1e12'')")
      case True
      with ne Inr have "\<forall>resp. ptax req resp =
          (Inr (error_dict ''Value out of range''), resp\<lparr>status := 400\<rparr>)"
        by (simp add: ptax_def)
      then show ?thesis by blast
    next
      case ok: False
      with ne Inr have pv: "passes_validation (query_attr req ''value'') v"
        by (simp add: passes_validation_def)
      show ?thesis
      proof (cases "query_attr req ''address'' \<noteq> [] \<and>
          re_search (query_attr req ''address'') = None")
        case True
        with pv have "\<forall>resp. ptax req resp =
            (Inr (error_dict malformed_address), resp\<lparr>status := 400\<rparr>)"
          using ptax_malformed by blast
        then show ?thesis by blast
      next
        case False
        show ?thesis
        proof (cases "query_attr req ''address'' = []")
          case True
          with ne Inr ok have "\<forall>resp. ptax req resp =
              (default_calc (query_attr req ''address'') v, resp)"
            by (simp add: ptax_def Let_def)
          then show ?thesis by blast
        next
          case False
          with \<open>\<not> (query_attr req ''address'' \<noteq> [] \<and>
              re_search (query_attr req ''address'') = None)\<close>
          obtain st where "re_search (query_attr req ''address'') = Some st"
            by auto
          from ptax_dispatch [OF pv this] show ?thesis by blast
        qed
      qed
    qed
  qed
qed

text \<open>
  C9: the reply depends on the query parameters \<open>address\<close> and \<open>value\<close> only. For two
  requests that agree on them, whatever else the requests hold, the handler returns the
  same dictionary, whatever the two response objects hold; it writes the status on the
  error paths only and leaves the response object alone otherwise, so the final
  statuses agree whenever the response objects start with the same status; and as the
  response object of every request starts with status 200, the two replies are
  identical in status and dictionary.
\<close>

theorem serve_deterministic:
  assumes "query_attr r1 ''value'' = query_attr r2 ''value''"
    and "query_attr r1 ''address'' = query_attr r2 ''address''"
  shows "fst (ptax r1 resp1) = fst (ptax r2 resp2) \<and>
         (snd (ptax r1 resp1) = resp1 \<or> snd (ptax r1 resp1) = resp1\<lparr>status := 400\<rparr>) \<and>
         (status resp1 = status resp2 \<longrightarrow>
            status (snd (ptax r1 resp1)) = status (snd (ptax r2 resp2))) \<and>
         serve r1 = serve r2"
proof -
  have same: "ptax r1 resp = ptax r2 resp" for resp
    using assms unfolding ptax_def by (simp only:)
  from ptax_shape [of r1] obtain d where
    d: "(\<forall>resp. ptax r1 resp = (d, resp\<lparr>status := 400\<rparr>)) \<or> (\<forall>resp. ptax r1 resp = (d, resp))"
    by blast
  then have body: "fst (ptax r1 resp) = d" for resp
    by auto
  from d have stat: "status (snd (ptax r1 resp1)) = status (snd (ptax r1 resp2))"
    if "status resp1 = status resp2"
    using that by auto
  have "fst (ptax r1 resp1) = fst (ptax r2 resp2)"
    using body [of resp1] body [of resp2] same [of resp2] by simp
  moreover have "status resp1 = status resp2 \<longrightarrow>
      status (snd (ptax r1 resp1)) = status (snd (ptax r2 resp2))"
    using stat same [of resp2] by simp
  moreover have "serve r1 = serve r2"
    using same [of fresh_response] by (simp add: serve_def)
  moreover from d have "snd (ptax r1 resp1) = resp1 \<or>
      snd (ptax r1 resp1) = resp1\<lparr>status := 400\<rparr>"
    by auto
  ultimately show ?thesis by blast
qed

theorem serve_deterministic_witness:
  "query_attr \<lparr>query = [(''value'', ''5000''), (''zip'', ''94110'')],
               headers = [(''Accept'', ''text/html'')], path = ''/ptax''\<rparr> ''value''
     = query_attr (get_request [(''value'', ''5000'')]) ''value'' \<and>
   query_attr \<lparr>query = [(''value'', ''5000''), (''zip'', ''94110'')],
               headers = [(''Accept'', ''text/html'')], path = ''/ptax''\<rparr> ''address''
     = query_attr (get_request [(''value'', ''5000'')]) ''address'' \<and>
   fst (ptax \<lparr>query = [(''value'', ''5000''), (''zip'', ''94110'')],
          headers = [(''Accept'', ''text/html'')], path = ''/ptax''\<rparr> \<lparr>status = 400\<rparr>)
     = fst (ptax (get_request [(''value'', ''5000'')]) \<lparr>status = 200\<rparr>) \<and>
   serve \<lparr>query = [(''value'', ''5000''), (''zip'', ''94110'')],
          headers = [(''Accept'', ''text/html'')], path = ''/ptax''\<rparr>
     = serve (get_request [(''value'', ''5000'')])"
  using serve_deterministic
    [of "\<lparr>query = [(''value'', ''5000''), (''zip'', ''94110'')],
          headers = [(''Accept'', ''text/html'')], path = ''/ptax''\<rparr>"
        "get_request [(''value'', ''5000'')]" "\<lparr>status = 400\<rparr>" "\<lparr>status = 200\<rparr>"]
  by (simp add: query_attr_def get_request_def)

end
